theory Spec2Isabelle
  imports Complex_Main "HOL-Library.Log_Nat"
begin

section \<open>JavaScript numbers\<close>

text \<open>
  A JavaScript number is an IEEE 754 double. It is modelled by the real number it
  denotes, and every arithmetic operation of the sources rounds its exact result to the
  nearest double, ties to the even significand: 53 significant bits, with the spacing of
  the subnormal range (\<open>2 powi - 1074\<close>) below \<open>2 powi - 1022\<close>. \<open>Infinity\<close>, \<open>NaN\<close>
  and the sign of zero are not values of the model. The sources obtain a non-finite
  number only from a division by zero; every divisor is shown below to be at least 1,
  apart from the track height of the middle control, which \<open>trackPosition\<close> treats case
  by case. Results of magnitude \<open>2 powi 1024\<close> and above, which a double cannot hold, are
  outside the model.
\<close>

definition roundEven :: "real \<Rightarrow> int" where
  "roundEven y =
     (let n = \<lfloor>y\<rfloor>; r = y - of_int n
      in if r < 1 / 2 then n else if 1 / 2 < r then n + 1 else if even n then n else n + 1)"

text \<open>The binary exponent of a non-zero number: \<open>2 powi expo x \<le> \<bar>x\<bar> < 2 powi (expo x + 1)\<close>.\<close>

definition expo :: "real \<Rightarrow> int" where
  "expo x =
     (if 1 \<le> \<bar>x\<bar> then bitlen \<lfloor>\<bar>x\<bar>\<rfloor> - 1 else - bitlen (\<lceil>1 / \<bar>x\<bar>\<rceil> - 1))"

text \<open>The spacing of the doubles around \<open>x\<close>.\<close>

definition quantum :: "real \<Rightarrow> real" where
  "quantum x = 2 powi (max (expo x) (- 1022) - 52)"

definition nearestDouble :: "real \<Rightarrow> real" where
  "nearestDouble x = of_int (roundEven (x / quantum x)) * quantum x"

definition js_add :: "real \<Rightarrow> real \<Rightarrow> real" where
  "js_add a b = nearestDouble (a + b)"

definition js_sub :: "real \<Rightarrow> real \<Rightarrow> real" where
  "js_sub a b = nearestDouble (a - b)"

definition js_mul :: "real \<Rightarrow> real \<Rightarrow> real" where
  "js_mul a b = nearestDouble (a * b)"

definition js_div :: "real \<Rightarrow> real \<Rightarrow> real" where
  "js_div a b = nearestDouble (a / b)"

text \<open>
  \<open>Math.round\<close> returns the nearest integer, the upper one of two that are equally near.
  \<open>Math.max\<close> and \<open>Math.min\<close> on finite numbers are \<open>max\<close> and \<open>min\<close>.
\<close>

definition Math_round :: "real \<Rightarrow> int" where
  "Math_round x = \<lfloor>x + 1 / 2\<rfloor>"

section \<open>Host objects shared by the console script and the middle scroll control\<close>

text \<open>
  A DOM element, reduced to the six measurements the two source files read. The four
  sizes are integers (32-bit in the DOM, hence doubles without rounding); the two
  offsets are numbers.
\<close>

record element =
  scrollTop :: real
  scrollLeft :: real
  scrollHeight :: int
  clientHeight :: int
  scrollWidth :: int
  clientWidth :: int

type_synonym elem = nat

text \<open>
  The assignments \<open>el.scrollTop = v\<close> and \<open>el.scrollLeft = v\<close> are carried out by the
  host, which scrolls the element to the given offset within its scroll range: the
  offset the element has afterwards is \<open>v\<close> clamped to the interval from 0 to
  \<open>max(0, scrollHeight - clientHeight)\<close> (for \<open>scrollLeft\<close>, the widths).
\<close>

definition hostScrollTop :: "element \<Rightarrow> int \<Rightarrow> int" where
  "hostScrollTop el v = max 0 (min (scrollHeight el - clientHeight el) v)"

definition hostScrollLeft :: "element \<Rightarrow> int \<Rightarrow> int" where
  "hostScrollLeft el v = max 0 (min (scrollWidth el - clientWidth el) v)"

section \<open>scroll-sync.js\<close>

subsection \<open>Module state and host state\<close>

text \<open>
  Each arrow function expression evaluates to a new function object. A listener is the
  identity of that object together with its body; both bodies read the module variables
  \<open>leftPane\<close> and \<open>rightPane\<close> when they run, not when they are created.
\<close>

datatype callback = SyncLeftToRight | SyncRightToLeft

type_synonym listener = "nat \<times> callback"

datatype scrollProp = ScrollTopProp | ScrollLeftProp

datatype message =
    LeftPaneNotFound string
  | RightPaneNotFound string
  | PanesSetManually
  | SyncError
  | CannotAddListeners
  | SynchronizationEnabled
  | SyncEnabledMsg
  | SyncDisabledMsg
  | Initializing
  | NowActive
  | CouldNotAutoDetect

text \<open>
  \<open>document.querySelector\<close> returns the first matching element or \<open>null\<close>, and throws a
  \<open>SyntaxError\<close> when the string is not a valid selector.
\<close>

datatype exn = SyntaxError

text \<open>
  The four module variables, followed by the parts of the host the script acts on: the
  document's selector lookup, the element store, the scroll listeners of every element,
  the supply of function identities, the number of pending 50 ms timeouts, the log of
  scroll offset assignments (element, property, assigned value), and the console.
  Console lines printed one after another by the same branch are one message.
\<close>

record engine =
  leftPane :: "elem option"
  rightPane :: "elem option"
  isScrolling :: bool
  syncEnabled :: bool
  querySelector :: "string \<Rightarrow> exn + elem option"
  elements :: "elem \<Rightarrow> element"
  listeners :: "elem \<Rightarrow> listener list"
  nextFn :: nat
  timers :: nat
  writes :: "(elem \<times> scrollProp \<times> int) list"
  console :: "message list"

subsection \<open>setPanes\<close>

text \<open>
  \<open>setPanes\<close> has no \<open>try\<close>: an exception of either lookup leaves it at once, with the
  assignments made so far in place. The result is the exception or the returned
  boolean, next to the state.
\<close>

definition setPanes :: "string \<Rightarrow> string \<Rightarrow> engine \<Rightarrow> (exn + bool) \<times> engine" where
  "setPanes leftSelector rightSelector s =
     (case querySelector s leftSelector of
        Inl e \<Rightarrow> (Inl e, s)
      | Inr l \<Rightarrow>
          let s1 = s\<lparr>leftPane := l\<rparr>
          in (case querySelector s1 rightSelector of
                Inl e \<Rightarrow> (Inl e, s1)
              | Inr r \<Rightarrow>
                  let s2 = s1\<lparr>rightPane := r\<rparr>
                  in if leftPane s2 = None then
                       (Inr False, s2\<lparr>console := console s2 @ [LeftPaneNotFound leftSelector]\<rparr>)
                     else if rightPane s2 = None then
                       (Inr False, s2\<lparr>console := console s2 @ [RightPaneNotFound rightSelector]\<rparr>)
                     else (Inr True, s2\<lparr>console := console s2 @ [PanesSetManually]\<rparr>)))"

subsection \<open>syncScroll\<close>

text \<open>The local constants of \<open>syncScroll\<close>, under the names the source gives them.\<close>

definition sourceMaxScrollTop :: "element \<Rightarrow> real" where
  "sourceMaxScrollTop sourcePane =
     max 1 (js_sub (of_int (scrollHeight sourcePane)) (of_int (clientHeight sourcePane)))"

definition sourceMaxScrollLeft :: "element \<Rightarrow> real" where
  "sourceMaxScrollLeft sourcePane =
     max 1 (js_sub (of_int (scrollWidth sourcePane)) (of_int (clientWidth sourcePane)))"

definition targetMaxScrollTop :: "element \<Rightarrow> real" where
  "targetMaxScrollTop targetPane =
     max 1 (js_sub (of_int (scrollHeight targetPane)) (of_int (clientHeight targetPane)))"

definition targetMaxScrollLeft :: "element \<Rightarrow> real" where
  "targetMaxScrollLeft targetPane =
     max 1 (js_sub (of_int (scrollWidth targetPane)) (of_int (clientWidth targetPane)))"

definition scrollTopRatio :: "element \<Rightarrow> real" where
  "scrollTopRatio sourcePane = js_div (scrollTop sourcePane) (sourceMaxScrollTop sourcePane)"

definition scrollLeftRatio :: "element \<Rightarrow> real" where
  "scrollLeftRatio sourcePane = js_div (scrollLeft sourcePane) (sourceMaxScrollLeft sourcePane)"

definition targetScrollTop :: "element \<Rightarrow> element \<Rightarrow> int" where
  "targetScrollTop sourcePane targetPane =
     Math_round (js_mul (targetMaxScrollTop targetPane) (scrollTopRatio sourcePane))"

definition targetScrollLeft :: "element \<Rightarrow> element \<Rightarrow> int" where
  "targetScrollLeft sourcePane targetPane =
     Math_round (js_mul (targetMaxScrollLeft targetPane) (scrollLeftRatio sourcePane))"

text \<open>
  An assignment is logged with the value the script assigned; the element then has the
  offset the host gives it.
\<close>

definition assignScrollTop :: "elem \<Rightarrow> int \<Rightarrow> engine \<Rightarrow> engine" where
  "assignScrollTop el v s =
     s\<lparr>elements := (elements s)
          (el := (elements s el)\<lparr>scrollTop := of_int (hostScrollTop (elements s el) v)\<rparr>),
       writes := writes s @ [(el, ScrollTopProp, v)]\<rparr>"

definition assignScrollLeft :: "elem \<Rightarrow> int \<Rightarrow> engine \<Rightarrow> engine" where
  "assignScrollLeft el v s =
     s\<lparr>elements := (elements s)
          (el := (elements s el)\<lparr>scrollLeft := of_int (hostScrollLeft (elements s el) v)\<rparr>),
       writes := writes s @ [(el, ScrollLeftProp, v)]\<rparr>"

text \<open>
  A \<open>null\<close> source raises a TypeError at the first read of the \<open>try\<close> block, a \<open>null\<close>
  target at the first read of the target; both are caught before any assignment, and
  the timeout is set in every case that passes the guard.
\<close>

definition syncScroll :: "elem option \<Rightarrow> elem option \<Rightarrow> engine \<Rightarrow> engine" where
  "syncScroll sourcePane targetPane s =
     (if isScrolling s \<or> \<not> syncEnabled s then s
      else
        let s1 = s\<lparr>isScrolling := True\<rparr>;
            s2 = (case sourcePane of
                    None \<Rightarrow> s1\<lparr>console := console s1 @ [SyncError]\<rparr>
                  | Some src \<Rightarrow>
                      (case targetPane of
                         None \<Rightarrow> s1\<lparr>console := console s1 @ [SyncError]\<rparr>
                       | Some tgt \<Rightarrow>
                           let top = targetScrollTop (elements s1 src) (elements s1 tgt);
                               left = targetScrollLeft (elements s1 src) (elements s1 tgt)
                           in assignScrollLeft tgt left (assignScrollTop tgt top s1)))
        in s2\<lparr>timers := timers s2 + 1\<rparr>)"

text \<open>The callback of \<open>setTimeout\<close>, run by the host once per pending timeout.\<close>

definition settle :: "engine \<Rightarrow> engine" where
  "settle s = (if timers s = 0 then s else s\<lparr>isScrolling := False, timers := timers s - 1\<rparr>)"

subsection \<open>Listener management\<close>

text \<open>
  \<open>addEventListener\<close> appends a callback unless the same function object is already
  registered; \<open>removeEventListener\<close> removes the registration of the function object it
  is given. \<open>newArrow\<close> evaluates an arrow function expression.
\<close>

definition newArrow :: "callback \<Rightarrow> engine \<Rightarrow> listener \<times> engine" where
  "newArrow body s = ((nextFn s, body), s\<lparr>nextFn := nextFn s + 1\<rparr>)"

definition addEventListener :: "elem \<Rightarrow> listener \<Rightarrow> engine \<Rightarrow> engine" where
  "addEventListener el f s =
     (if f \<in> set (listeners s el) then s
      else s\<lparr>listeners := (listeners s)(el := listeners s el @ [f])\<rparr>)"

definition removeEventListener :: "elem \<Rightarrow> listener \<Rightarrow> engine \<Rightarrow> engine" where
  "removeEventListener el f s =
     s\<lparr>listeners := (listeners s)(el := removeAll f (listeners s el))\<rparr>"

definition removeScrollListeners :: "engine \<Rightarrow> engine" where
  "removeScrollListeners s =
     (let s1 = (case leftPane s of
                  None \<Rightarrow> s
                | Some l \<Rightarrow> (let (f, t) = newArrow SyncLeftToRight s
                             in removeEventListener l f t))
      in case rightPane s1 of
           None \<Rightarrow> s1
         | Some r \<Rightarrow> (let (g, t) = newArrow SyncRightToLeft s1
                      in removeEventListener r g t))"

definition addScrollListeners :: "engine \<Rightarrow> bool \<times> engine" where
  "addScrollListeners s =
     (case leftPane s of
        None \<Rightarrow> (False, s\<lparr>console := console s @ [CannotAddListeners]\<rparr>)
      | Some l \<Rightarrow>
          (case rightPane s of
             None \<Rightarrow> (False, s\<lparr>console := console s @ [CannotAddListeners]\<rparr>)
           | Some r \<Rightarrow>
               let s1 = removeScrollListeners s;
                   (f, s2) = newArrow SyncLeftToRight s1;
                   s3 = addEventListener l f s2;
                   (g, s4) = newArrow SyncRightToLeft s3;
                   s5 = addEventListener r g s4
               in (True, s5\<lparr>console := console s5 @ [SynchronizationEnabled]\<rparr>)))"

subsection \<open>toggleSync and init\<close>

definition toggleSync :: "engine \<Rightarrow> bool \<times> engine" where
  "toggleSync s =
     (let s1 = s\<lparr>syncEnabled := \<not> syncEnabled s\<rparr>
      in (syncEnabled s1,
          s1\<lparr>console := console s1 @ [if syncEnabled s1 then SyncEnabledMsg else SyncDisabledMsg]\<rparr>))"

text \<open>
  \<open>init\<close> takes the pair returned by \<open>findScrollablePanes\<close> as an argument: the
  auto-detection queries are not modelled.
\<close>

definition init :: "elem option \<times> elem option \<Rightarrow> engine \<Rightarrow> bool \<times> engine" where
  "init found s =
     (let s1 = s\<lparr>console := console s @ [Initializing]\<rparr>;
          s2 = s1\<lparr>leftPane := fst found, rightPane := snd found\<rparr>
      in if leftPane s2 \<noteq> None \<and> rightPane s2 \<noteq> None then
           (let (ok, s3) = addScrollListeners s2
            in if ok then (True, s3\<lparr>console := console s3 @ [NowActive]\<rparr>) else (False, s3))
         else (False, s2\<lparr>console := console s2 @ [CouldNotAutoDetect]\<rparr>))"

subsection \<open>Event dispatch\<close>

definition runListener :: "engine \<Rightarrow> listener \<Rightarrow> engine" where
  "runListener s f =
     (case snd f of
        SyncLeftToRight \<Rightarrow> syncScroll (leftPane s) (rightPane s) s
      | SyncRightToLeft \<Rightarrow> syncScroll (rightPane s) (leftPane s) s)"

text \<open>A scroll event on an element runs the listeners registered on it, in order.\<close>

definition scrollEvent :: "elem \<Rightarrow> engine \<Rightarrow> engine" where
  "scrollEvent el s = foldl runListener s (listeners s el)"

datatype event = Scroll elem | Timeout

fun handle :: "engine \<Rightarrow> event \<Rightarrow> engine" where
  "handle s (Scroll el) = scrollEvent el s"
| "handle s Timeout = settle s"

definition run :: "event list \<Rightarrow> engine \<Rightarrow> engine" where
  "run evs s = foldl handle s evs"

subsection \<open>The scenario of the specification and other pages\<close>

definition paneA :: element where
  "paneA = \<lparr>scrollTop = 750, scrollLeft = 0, scrollHeight = 2000, clientHeight = 500,
            scrollWidth = 800, clientWidth = 800\<rparr>"

definition paneB :: element where
  "paneB = \<lparr>scrollTop = 0, scrollLeft = 0, scrollHeight = 1000, clientHeight = 400,
            scrollWidth = 800, clientWidth = 800\<rparr>"

text \<open>The empty string is not a valid selector.\<close>

definition page :: "string \<Rightarrow> exn + elem option" where
  "page sel =
     (if sel = [] then Inl SyntaxError
      else if sel = ''#left'' then Inr (Some 0) else if sel = ''#right'' then Inr (Some 1)
      else if sel = ''#other'' then Inr (Some 2) else Inr None)"

definition scenario :: engine where
  "scenario =
     \<lparr>leftPane = Some 0, rightPane = Some 1, isScrolling = False, syncEnabled = True,
      querySelector = page,
      elements = (\<lambda>_. paneB)(0 := paneA),
      listeners = (\<lambda>_. [])(0 := [(0, SyncLeftToRight)], 1 := [(1, SyncRightToLeft)]),
      nextFn = 2, timers = 0, writes = [], console = []\<rparr>"

text \<open>The script before any binding, on the same page.\<close>

definition blank :: engine where
  "blank = scenario\<lparr>leftPane := None, rightPane := None, listeners := (\<lambda>_. []), nextFn := 0\<rparr>"

text \<open>
  A pane whose content fits vertically (400 in 400) and overflows horizontally, as the
  target of a source scrolled to its end.
\<close>

definition paneFits :: element where
  "paneFits = \<lparr>scrollTop = 0, scrollLeft = 0, scrollHeight = 400, clientHeight = 400,
               scrollWidth = 1200, clientWidth = 800\<rparr>"

definition ontoFitting :: engine where
  "ontoFitting = scenario\<lparr>elements := (\<lambda>_. paneFits)(0 := paneA\<lparr>scrollTop := 1500\<rparr>)\<rparr>"

text \<open>
  A source with a range of 500 (1000 in 500) at offset \<open>t\<close>, bound to a target with a
  range of 330 (730 in 400).
\<close>

definition paneC :: "real \<Rightarrow> element" where
  "paneC t = \<lparr>scrollTop = t, scrollLeft = 0, scrollHeight = 1000, clientHeight = 500,
              scrollWidth = 800, clientWidth = 800\<rparr>"

definition paneD :: element where
  "paneD = \<lparr>scrollTop = 0, scrollLeft = 0, scrollHeight = 730, clientHeight = 400,
            scrollWidth = 800, clientWidth = 800\<rparr>"

definition uneven :: "real \<Rightarrow> engine" where
  "uneven t = scenario\<lparr>elements := (\<lambda>_. paneD)(0 := paneC t)\<rparr>"



section \<open>MiddleScrollControl.jsx\<close>

text \<open>
  The component's state hooks, its two props, and the host: the document's lookup by id,
  the element store, the bounding rectangle of the track when the ref is attached, and
  the log of \<open>scrollTo({top, behavior: 'smooth'})\<close> calls (element, requested top). A
  smooth scroll is carried out by the host after the call returns, so the call does not
  change the store.
\<close>

record track =
  rectTop :: real
  rectHeight :: real

record control =
  scrollPosition :: real
  isPreviewMode :: bool
  isDragging :: bool
  leftContainerId :: string
  rightContainerId :: string
  getElementById :: "string \<Rightarrow> elem option"
  containers :: "elem \<Rightarrow> element"
  scrollBarRef :: "track option"
  scrollToCalls :: "(elem \<times> int) list"

definition getContainers :: "control \<Rightarrow> elem option \<times> elem option" where
  "getContainers c =
     (getElementById c (leftContainerId c), getElementById c (rightContainerId c))"

text \<open>The local constants of \<open>updateScrollPosition\<close>.\<close>

definition maxScroll :: "element \<Rightarrow> real" where
  "maxScroll left = max 1 (js_sub (of_int (scrollHeight left)) (of_int (clientHeight left)))"

definition position :: "element \<Rightarrow> real" where
  "position left = min 100 (max 0 (js_mul (js_div (scrollTop left) (maxScroll left)) 100))"

definition updateScrollPosition :: "control \<Rightarrow> control" where
  "updateScrollPosition c =
     (case fst (getContainers c) of
        None \<Rightarrow> c
      | Some l \<Rightarrow> c\<lparr>scrollPosition := position (containers c l)\<rparr>)"

text \<open>The local constants of \<open>scrollToPosition\<close>, for either container.\<close>

definition containerMaxScroll :: "element \<Rightarrow> real" where
  "containerMaxScroll el = max 0 (js_sub (of_int (scrollHeight el)) (of_int (clientHeight el)))"

definition scrollRatio :: "real \<Rightarrow> real" where
  "scrollRatio pos = js_div pos 100"

definition containerScrollTop :: "real \<Rightarrow> element \<Rightarrow> int" where
  "containerScrollTop pos el = Math_round (js_mul (containerMaxScroll el) (scrollRatio pos))"

definition scrollToPosition :: "real \<Rightarrow> control \<Rightarrow> control" where
  "scrollToPosition pos c =
     (case getContainers c of
        (Some l, Some r) \<Rightarrow>
          c\<lparr>scrollToCalls := scrollToCalls c @
               [(l, containerScrollTop pos (containers c l)),
                (r, containerScrollTop pos (containers c r))]\<rparr>
      | _ \<Rightarrow> c)"

text \<open>
  The position of a pointer on the track, \<open>Math.min(100, Math.max(0, (y / rect.height) * 100))\<close>.
  On a track of height 0 the quotient is \<open>Infinity\<close>, \<open>-Infinity\<close> or \<open>NaN\<close>, which
  \<open>Math.max\<close> and \<open>Math.min\<close> turn into 100, 0 and \<open>NaN\<close>; \<open>NaN\<close> is \<open>None\<close>.
\<close>

definition trackPosition :: "real \<Rightarrow> track \<Rightarrow> real option" where
  "trackPosition clientY rect =
     (let clickY = js_sub clientY (rectTop rect)
      in if rectHeight rect = 0 then
           (if 0 < clickY then Some 100 else if clickY < 0 then Some 0 else None)
         else Some (min 100 (max 0 (js_mul (js_div clickY (rectHeight rect)) 100))))"

definition handleScrollBarClick :: "real \<Rightarrow> control \<Rightarrow> control option" where
  "handleScrollBarClick clientY c =
     (case scrollBarRef c of
        None \<Rightarrow> Some c
      | Some rect \<Rightarrow>
          (case trackPosition clientY rect of
             None \<Rightarrow> None
           | Some pos \<Rightarrow> Some (scrollToPosition pos c)))"

definition scrollUp :: "control \<Rightarrow> control" where
  "scrollUp c =
     (let newPosition = max 0 (js_sub (scrollPosition c) 10) in scrollToPosition newPosition c)"

definition scrollDown :: "control \<Rightarrow> control" where
  "scrollDown c =
     (let newPosition = min 100 (js_add (scrollPosition c) 10) in scrollToPosition newPosition c)"

definition resetScroll :: "control \<Rightarrow> control" where
  "resetScroll c = scrollToPosition 0 c"

subsection \<open>A mounted control over the two panes of the scenario\<close>

definition ids :: "string \<Rightarrow> elem option" where
  "ids name = (if name = ''left'' then Some 0 else if name = ''right'' then Some 1 else None)"

definition panel :: control where
  "panel =
     \<lparr>scrollPosition = 0, isPreviewMode = False, isDragging = False,
      leftContainerId = ''left'', rightContainerId = ''right'',
      getElementById = ids,
      containers = (\<lambda>_. paneB)(0 := paneA),
      scrollBarRef = Some \<lparr>rectTop = 0, rectHeight = 200\<rparr>,
      scrollToCalls = []\<rparr>"



section \<open>Properties of the number model\<close>

text \<open>
  Rounding to a double keeps the sign, never crosses 1 from above, and never crosses an
  integer below \<open>2 ^ 53\<close> from below.
\<close>

lemma roundEven_le: "y \<le> of_int n \<Longrightarrow> roundEven y \<le> n"
proof -
  assume le: "y \<le> of_int n"
  then have fl: "\<lfloor>y\<rfloor> \<le> n" by (metis floor_mono floor_of_int)
  show ?thesis
  proof (cases "\<lfloor>y\<rfloor> = n")
    case True
    then have "y - of_int \<lfloor>y\<rfloor> \<le> 0" using le by simp
    then show ?thesis using True by (simp add: roundEven_def Let_def)
  next
    case False
    then have "\<lfloor>y\<rfloor> + 1 \<le> n" using fl by simp
    then show ?thesis by (simp add: roundEven_def Let_def)
  qed
qed

lemma roundEven_ge: "of_int n \<le> y \<Longrightarrow> n \<le> roundEven y"
proof -
  assume "of_int n \<le> y"
  then have "n \<le> \<lfloor>y\<rfloor>" by (simp add: le_floor_iff)
  then show ?thesis by (simp add: roundEven_def Let_def)
qed

lemma roundEven_of_int: "roundEven (of_int n) = n"
  by (simp add: roundEven_def Let_def)

lemma quantum_pos: "0 < quantum x"
  by (simp add: quantum_def)

lemma expo_bounds:
  assumes "x \<noteq> 0"
  shows "2 powi expo x \<le> \<bar>x\<bar> \<and> \<bar>x\<bar> < 2 powi (expo x + 1)"
proof (cases "1 \<le> \<bar>x\<bar>")
  case True
  define n where "n = \<lfloor>\<bar>x\<bar>\<rfloor>"
  have n: "0 < n" using True by (simp add: n_def)
  have b: "1 \<le> bitlen n" using n bitlen_eq_zero_iff [of n] bitlen_nonneg [of n] by linarith
  have e: "expo x = bitlen n - 1" using True by (simp add: expo_def n_def)
  from bitlen_bounds [OF n] have lo: "2 ^ nat (bitlen n - 1) \<le> n" and hi: "n < 2 ^ nat (bitlen n)"
    by simp_all
  have "real_of_int (2 ^ nat (bitlen n - 1)) \<le> real_of_int n"
    using lo of_int_le_iff by blast
  also have "\<dots> \<le> \<bar>x\<bar>" by (simp add: n_def)
  finally have 1: "2 powi expo x \<le> \<bar>x\<bar>"
    using b by (simp add: e power_int_def)
  have "n + 1 \<le> 2 ^ nat (bitlen n)" using hi by simp
  then have "real_of_int (n + 1) \<le> real_of_int (2 ^ nat (bitlen n))"
    using of_int_le_iff by blast
  moreover have "\<bar>x\<bar> < real_of_int (n + 1)" by (simp add: n_def)
  ultimately have 2: "\<bar>x\<bar> < 2 powi (expo x + 1)"
    using b by (simp add: e power_int_def)
  from 1 2 show ?thesis ..
next
  case False
  define y where "y = 1 / \<bar>x\<bar>"
  define m where "m = \<lceil>y\<rceil> - 1"
  have xpos: "0 < \<bar>x\<bar>" using assms by simp
  have y1: "1 < y" using False xpos by (simp add: y_def)
  have m: "0 < m" using y1 by (simp add: m_def less_ceiling_iff)
  have my: "real_of_int m < y" "y \<le> real_of_int m + 1"
    unfolding m_def by linarith+
  have b: "1 \<le> bitlen m" using m bitlen_eq_zero_iff [of m] bitlen_nonneg [of m] by linarith
  have e: "expo x = - bitlen m" using False by (simp add: expo_def m_def y_def)
  from bitlen_bounds [OF m] have lo: "2 ^ nat (bitlen m - 1) \<le> m" and hi: "m < 2 ^ nat (bitlen m)"
    by simp_all
  have "real_of_int (m + 1) \<le> real_of_int (2 ^ nat (bitlen m))"
    using hi of_int_le_iff by (metis zless_imp_add1_zle)
  then have "real_of_int m + 1 \<le> 2 ^ nat (bitlen m)" by simp
  then have yhi: "y \<le> 2 ^ nat (bitlen m)" using my by linarith
  have "real_of_int (2 ^ nat (bitlen m - 1)) \<le> real_of_int m"
    using lo of_int_le_iff by blast
  then have "2 ^ nat (bitlen m - 1) \<le> real_of_int m" by simp
  then have ylo: "2 ^ nat (bitlen m - 1) < y" using my by linarith
  have x: "\<bar>x\<bar> = 1 / y" using xpos by (simp add: y_def)
  have 1: "2 powi expo x \<le> \<bar>x\<bar>"
  proof -
    have "1 / 2 ^ nat (bitlen m) \<le> 1 / y"
      using yhi y1 by (simp add: frac_le)
    then show ?thesis using b by (simp add: e x power_int_def power_one_over inverse_eq_divide)
  qed
  have 2: "\<bar>x\<bar> < 2 powi (expo x + 1)"
  proof -
    have "1 / y < 1 / 2 ^ nat (bitlen m - 1)"
      using ylo by (simp add: frac_less2)
    moreover have "expo x + 1 = - int (nat (bitlen m - 1))"
      using b by (simp add: e)
    then have "(2::real) powi (expo x + 1) = 1 / 2 ^ nat (bitlen m - 1)"
      by (simp only: power_int_minus power_int_of_nat inverse_eq_divide)
    ultimately show ?thesis by (simp add: x)
  qed
  from 1 2 show ?thesis ..
qed


lemma nearestDouble_nonneg: "0 \<le> x \<Longrightarrow> 0 \<le> nearestDouble x"
proof -
  assume "0 \<le> x"
  then have "real_of_int 0 \<le> x / quantum x"
    using quantum_pos [of x] by simp
  then have "0 \<le> roundEven (x / quantum x)" by (rule roundEven_ge)
  then show ?thesis
    using quantum_pos [of x] by (simp add: nearestDouble_def)
qed

lemma nearestDouble_nonpos: "x \<le> 0 \<Longrightarrow> nearestDouble x \<le> 0"
proof -
  assume "x \<le> 0"
  then have "x / quantum x \<le> real_of_int 0"
    using quantum_pos [of x] by (simp add: divide_nonpos_pos)
  then have "roundEven (x / quantum x) \<le> 0" by (rule roundEven_le)
  then show ?thesis
    using quantum_pos [of x] by (simp add: nearestDouble_def mult_nonpos_nonneg)
qed


lemma expo_less:
  assumes "x \<noteq> 0" and "\<bar>x\<bar> < 2 powi k"
  shows "expo x < k"
proof (rule ccontr)
  assume "\<not> expo x < k"
  then have "(2::real) powi k \<le> 2 powi expo x"
    by (intro power_int_increasing) simp_all
  with expo_bounds [OF assms(1)] assms(2) show False by linarith
qed

lemma quantum_inverse:
  assumes "max (expo x) (- 1022) - 52 \<le> 0"
  shows "quantum x * 2 ^ nat (- (max (expo x) (- 1022) - 52)) = 1"
proof -
  define k where "k = nat (- (max (expo x) (- 1022) - 52))"
  have "max (expo x) (- 1022) - 52 = - int k" using assms by (simp add: k_def)
  then have "quantum x = 1 / 2 ^ k"
    unfolding quantum_def by (simp only: power_int_minus power_int_of_nat inverse_eq_divide)
  then show ?thesis by (simp add: k_def)
qed

lemma nearestDouble_le_int:
  assumes le: "x \<le> of_int n" and n: "0 \<le> n" "n < 2 ^ 53"
  shows "nearestDouble x \<le> of_int n"
proof (cases "x \<le> 0")
  case True
  then show ?thesis using nearestDouble_nonpos [of x] n by linarith
next
  case False
  then have x: "x \<noteq> 0" "\<bar>x\<bar> = x" by simp_all
  have "x < 2 powi 53"
  proof -
    have "real_of_int n < real_of_int (2 ^ 53)" using n(2) of_int_less_iff by blast
    then show ?thesis using le by simp
  qed
  then have "expo x < 53" using expo_less [of x 53] x by simp
  then have e: "max (expo x) (- 1022) - 52 \<le> 0" by simp
  define k where "k = nat (- (max (expo x) (- 1022) - 52))"
  have q: "quantum x * 2 ^ k = 1" unfolding k_def using e by (rule quantum_inverse)
  have "x / quantum x = x * 2 ^ k"
    using q quantum_pos [of x] by (simp add: field_simps)
  also have "\<dots> \<le> of_int n * 2 ^ k"
    using le by (simp add: mult_right_mono)
  also have "\<dots> = of_int (n * 2 ^ k)" by simp
  finally have "roundEven (x / quantum x) \<le> n * 2 ^ k" by (rule roundEven_le)
  then have "real_of_int (roundEven (x / quantum x)) \<le> real_of_int (n * 2 ^ k)"
    using of_int_le_iff by blast
  then have "nearestDouble x \<le> real_of_int (n * 2 ^ k) * quantum x"
    unfolding nearestDouble_def using quantum_pos [of x] by (simp add: mult_right_mono)
  also have "\<dots> = of_int n * (quantum x * 2 ^ k)" by simp
  finally show ?thesis by (simp add: q)
qed




section \<open>Properties of the sync engine\<close>

subsection \<open>Auxiliary facts\<close>

text \<open>No divisor of the modelled quotients is zero.\<close>

lemma divisors_ge_1:
  "1 \<le> sourceMaxScrollTop p" "1 \<le> sourceMaxScrollLeft p" "1 \<le> maxScroll p"
  by (simp_all add: sourceMaxScrollTop_def sourceMaxScrollLeft_def maxScroll_def)

lemma syncScroll_guard: "isScrolling s \<or> \<not> syncEnabled s \<Longrightarrow> syncScroll a b s = s"
  by (simp add: syncScroll_def)

lemma runListener_guard: "isScrolling s \<or> \<not> syncEnabled s \<Longrightarrow> runListener s f = s"
  by (simp add: runListener_def syncScroll_guard split: callback.split)

lemma foldl_runListener_guard:
  "isScrolling s \<or> \<not> syncEnabled s \<Longrightarrow> foldl runListener s fs = s"
  by (induction fs) (simp_all add: runListener_guard)

lemma scrollEvent_guard: "isScrolling s \<or> \<not> syncEnabled s \<Longrightarrow> scrollEvent el s = s"
  by (simp add: scrollEvent_def foldl_runListener_guard)

lemma run_scrolls_guard:
  "isScrolling s \<or> \<not> syncEnabled s \<Longrightarrow> run (map Scroll els) s = s"
  by (induction els) (simp_all add: run_def scrollEvent_guard)

text \<open>The state after one pass that gets through the guard.\<close>

lemma syncScroll_pass:
  assumes "\<not> isScrolling s" and "syncEnabled s"
  shows "syncScroll (Some a) (Some b) s =
           s\<lparr>isScrolling := True,
             elements := (elements s)(b := (elements s b)
                \<lparr>scrollTop := of_int (hostScrollTop (elements s b)
                    (targetScrollTop (elements s a) (elements s b))),
                 scrollLeft := of_int (hostScrollLeft (elements s b)
                    (targetScrollLeft (elements s a) (elements s b)))\<rparr>),
             writes := writes s @
                [(b, ScrollTopProp, targetScrollTop (elements s a) (elements s b)),
                 (b, ScrollLeftProp, targetScrollLeft (elements s a) (elements s b))],
             timers := timers s + 1\<rparr>"
  using assms
  by (simp add: syncScroll_def Let_def assignScrollTop_def assignScrollLeft_def
      hostScrollTop_def hostScrollLeft_def)

text \<open>With a pane reference missing, no event handler assigns an offset.\<close>

lemma syncScroll_null:
  assumes "a = None \<or> b = None"
  shows "writes (syncScroll a b s) = writes s \<and> elements (syncScroll a b s) = elements s
       \<and> leftPane (syncScroll a b s) = leftPane s \<and> rightPane (syncScroll a b s) = rightPane s"
  using assms by (auto simp: syncScroll_def Let_def split: option.splits)

lemma runListener_null:
  assumes "leftPane s = None \<or> rightPane s = None"
  shows "writes (runListener s f) = writes s \<and> elements (runListener s f) = elements s
       \<and> leftPane (runListener s f) = leftPane s \<and> rightPane (runListener s f) = rightPane s"
  using assms syncScroll_null [of "leftPane s" "rightPane s" s]
    syncScroll_null [of "rightPane s" "leftPane s" s]
  by (cases "snd f") (auto simp: runListener_def)

lemma foldl_runListener_null:
  assumes "leftPane s = None \<or> rightPane s = None"
  shows "writes (foldl runListener s fs) = writes s
       \<and> elements (foldl runListener s fs) = elements s
       \<and> leftPane (foldl runListener s fs) = leftPane s
       \<and> rightPane (foldl runListener s fs) = rightPane s"
  using assms
proof (induction fs arbitrary: s)
  case Nil
  then show ?case by simp
next
  case (Cons f fs)
  have step: "writes (runListener s f) = writes s \<and> elements (runListener s f) = elements s
       \<and> leftPane (runListener s f) = leftPane s \<and> rightPane (runListener s f) = rightPane s"
    using Cons.prems by (rule runListener_null)
  then have "leftPane (runListener s f) = None \<or> rightPane (runListener s f) = None"
    using Cons.prems by simp
  from Cons.IH [OF this] step show ?case by simp
qed

lemma handle_null:
  assumes "leftPane s = None \<or> rightPane s = None"
  shows "writes (handle s e) = writes s \<and> elements (handle s e) = elements s
       \<and> leftPane (handle s e) = leftPane s \<and> rightPane (handle s e) = rightPane s"
proof (cases e)
  case (Scroll el)
  then show ?thesis
    using foldl_runListener_null [OF assms, of "listeners s el"] by (simp add: scrollEvent_def)
next
  case Timeout
  then show ?thesis by (simp add: settle_def)
qed

lemma run_null:
  assumes "leftPane s = None \<or> rightPane s = None"
  shows "writes (run evs s) = writes s \<and> elements (run evs s) = elements s"
  using assms
proof (induction evs arbitrary: s)
  case Nil
  then show ?case by (simp add: run_def)
next
  case (Cons e evs)
  have step: "writes (handle s e) = writes s \<and> elements (handle s e) = elements s
       \<and> leftPane (handle s e) = leftPane s \<and> rightPane (handle s e) = rightPane s"
    using Cons.prems by (rule handle_null)
  then have "leftPane (handle s e) = None \<or> rightPane (handle s e) = None"
    using Cons.prems by simp
  from Cons.IH [OF this] step show ?case by (simp add: run_def)
qed

text \<open>
  The function object that \<open>removeScrollListeners\<close> hands to \<open>removeEventListener\<close> is
  new, hence registered nowhere: as long as function identities are handed out in
  order, the call removes no listener.
\<close>

lemma removeScrollListeners_removes_nothing:
  assumes fresh: "\<forall>e. \<forall>f \<in> set (listeners s e). fst f < nextFn s"
  shows "listeners (removeScrollListeners s) = listeners s"
proof -
  have out: "(n, b) \<notin> set (listeners s e)" if "nextFn s \<le> n" for n b e
    using fresh that by fastforce
  show ?thesis
    by (cases "leftPane s"; cases "rightPane s")
      (simp_all add: removeScrollListeners_def newArrow_def removeEventListener_def out)
qed

text \<open>
  Hence every call of \<open>addScrollListeners\<close> on two distinct panes appends one listener
  to each of them and detaches none.
\<close>

lemma addScrollListeners_accumulates:
  assumes fresh: "\<forall>e. \<forall>f \<in> set (listeners s e). fst f < nextFn s"
    and left: "leftPane s = Some l" and right: "rightPane s = Some r" and distinct: "l \<noteq> r"
  shows "fst (addScrollListeners s)
       \<and> listeners (snd (addScrollListeners s)) l =
           listeners s l @ [(nextFn s + 2, SyncLeftToRight)]
       \<and> listeners (snd (addScrollListeners s)) r =
           listeners s r @ [(nextFn s + 3, SyncRightToLeft)]"
proof -
  have out: "(n, b) \<notin> set (listeners s e)" if "nextFn s \<le> n" for n b e
    using fresh that by fastforce
  show ?thesis
    using left right distinct
    by (simp add: addScrollListeners_def removeScrollListeners_def newArrow_def
        removeEventListener_def addEventListener_def Let_def out)
qed

text \<open>
  \<open>setPanes\<close> returns \<open>true\<close> exactly when both lookups find an element, and raises exactly
  when a selector is invalid: at the left one with the state untouched, at the right
  one with the left reference already overwritten.
\<close>

lemma setPanes_true_iff:
  "fst (setPanes l r s) = Inr True \<longleftrightarrow>
     (\<exists>a b. querySelector s l = Inr (Some a) \<and> querySelector s r = Inr (Some b))"
  by (auto simp: setPanes_def Let_def split: sum.splits)

lemma setPanes_raises_left:
  "querySelector s l = Inl e \<Longrightarrow> setPanes l r s = (Inl e, s)"
  by (simp add: setPanes_def)

lemma setPanes_raises_right:
  "querySelector s l = Inr ml \<Longrightarrow> querySelector s r = Inl e \<Longrightarrow>
     setPanes l r s = (Inl e, s\<lparr>leftPane := ml\<rparr>)"
  by (simp add: setPanes_def)

subsection \<open>Claims\<close>

text \<open>
  C1, as claimed: the target's new offset is round(targetMaxScroll * sourceOffset /
  sourceMaxScroll). With the source at 175 of a range of 500 and a target range of 330
  the formula gives round(115.5) = 116, also when product and quotient are taken in
  double arithmetic in that order; the script divides first, 330 * (175 / 500) is the
  double just below 115.5, and the target ends at 115. With the source at the end of
  its range and a target whose content fits, the formula gives 1 and the target ends
  at 0.
\<close>

theorem syncScroll_rounds_quotient_first:
  "scrollTop (elements (syncScroll (Some 0) (Some 1) (uneven 175)) 1) = 115
   \<and> Math_round (max 1 (of_int (scrollHeight paneD - clientHeight paneD))
        * scrollTop (paneC 175)
        / max 1 (of_int (scrollHeight (paneC 175) - clientHeight (paneC 175)))) = 116
   \<and> Math_round (js_div (js_mul 330 175) 500) = 116
   \<and> scrollTop (elements (syncScroll (Some 0) (Some 1) ontoFitting) 1) = 0
   \<and> Math_round (max 1 (of_int (scrollHeight paneFits - clientHeight paneFits))
        * scrollTop (elements ontoFitting 0)
        / max 1 (of_int (scrollHeight (elements ontoFitting 0)
                          - clientHeight (elements ontoFitting 0)))) = 1"
  by code_simp

text \<open>
  C1, amended. A propagation pass (the engine idle and enabled, both panes present)
  leaves in the target's vertical offset the value Math.round(targetMaxScroll *
  (sourceOffset / sourceMaxScroll)), computed in double arithmetic with the quotient
  rounded before the product, from the measurements read before the assignment, and
  clamped by the host to the target's scroll range; each max-scroll is
  max(1, scrollHeight - clientHeight). For a source of 2000/500 at offset 750 and a
  target of 1000/400 this is 300.
\<close>

theorem syncScroll_target_offset:
  assumes "\<not> isScrolling s" and "syncEnabled s"
  shows "scrollTop (elements (syncScroll (Some a) (Some b) s) b) =
           of_int (max 0 (min (scrollHeight (elements s b) - clientHeight (elements s b))
             (Math_round
               (js_mul
                 (max 1 (js_sub (of_int (scrollHeight (elements s b)))
                                (of_int (clientHeight (elements s b)))))
                 (js_div (scrollTop (elements s a))
                    (max 1 (js_sub (of_int (scrollHeight (elements s a)))
                                   (of_int (clientHeight (elements s a))))))))))"
  using assms
  by (simp add: syncScroll_pass hostScrollTop_def targetScrollTop_def targetMaxScrollTop_def
      scrollTopRatio_def sourceMaxScrollTop_def)

theorem syncScroll_target_offset_witness:
  "\<not> isScrolling scenario \<and> syncEnabled scenario
   \<and> scrollTop (elements (syncScroll (Some 0) (Some 1) scenario) 1) = 300
   \<and> scrollTop (elements (syncScroll (Some 0) (Some 1) (uneven 180)) 1) = 119
   \<and> scrollTop (elements (syncScroll (Some 0) (Some 1) (uneven 175)) 1) = 115
   \<and> scrollTop (elements (syncScroll (Some 0) (Some 1) ontoFitting) 1) = 0"
proof -
  have "scrollTop (elements (syncScroll (Some 0) (Some 1) scenario) 1) = 300
      \<and> scrollTop (elements (syncScroll (Some 0) (Some 1) (uneven 180)) 1) = 119
      \<and> scrollTop (elements (syncScroll (Some 0) (Some 1) (uneven 175)) 1) = 115
      \<and> scrollTop (elements (syncScroll (Some 0) (Some 1) ontoFitting) 1) = 0"
    by code_simp
  then show ?thesis
    using syncScroll_target_offset [of scenario 0 1] by (simp add: scenario_def)
qed

text \<open>
  C2. Let the engine be idle and enabled, and let pane \<open>a\<close> carry at least one listener,
  each of them propagating from \<open>a\<close> to another pane \<open>b\<close>. A scroll event on \<open>a\<close>,
  followed by any scroll events on any elements before the timeout runs (among them the
  event that the assignment to \<open>b\<close> raises), produces exactly two assignments: one to
  \<open>b.scrollTop\<close> and one to \<open>b.scrollLeft\<close>. Nothing is assigned to \<open>a\<close>, whose
  measurements stay as they were, and the guard flag is still set.
\<close>

theorem guard_blocks_reciprocal:
  assumes idle: "\<not> isScrolling s" and enabled: "syncEnabled s"
    and distinct: "a \<noteq> b"
    and bound: "listeners s a \<noteq> []"
    and dir: "\<forall>f \<in> set (listeners s a).
                (snd f = SyncLeftToRight \<and> leftPane s = Some a \<and> rightPane s = Some b) \<or>
                (snd f = SyncRightToLeft \<and> rightPane s = Some a \<and> leftPane s = Some b)"
  shows "writes (run (Scroll a # map Scroll echo) s) =
           writes s @ [(b, ScrollTopProp, targetScrollTop (elements s a) (elements s b)),
                       (b, ScrollLeftProp, targetScrollLeft (elements s a) (elements s b))]
         \<and> elements (run (Scroll a # map Scroll echo) s) a = elements s a
         \<and> isScrolling (run (Scroll a # map Scroll echo) s)"
proof -
  obtain f fs where ls: "listeners s a = f # fs"
    using bound by (cases "listeners s a") auto
  define t where "t = syncScroll (Some a) (Some b) s"
  have first: "runListener s f = t"
    using dir ls by (auto simp: runListener_def t_def)
  have flag: "isScrolling t"
    using idle enabled by (simp add: t_def syncScroll_pass)
  have "scrollEvent a s = foldl runListener t fs"
    by (simp add: scrollEvent_def ls first)
  also have "\<dots> = t"
    using flag by (simp add: foldl_runListener_guard)
  finally have ev: "scrollEvent a s = t" .
  have "run (Scroll a # map Scroll echo) s = run (map Scroll echo) t"
    by (simp add: run_def ev)
  also have "\<dots> = t"
    using flag by (simp add: run_scrolls_guard)
  finally have "run (Scroll a # map Scroll echo) s = t" .
  then show ?thesis
    using idle enabled distinct by (simp add: t_def syncScroll_pass)
qed

theorem guard_blocks_reciprocal_witness:
  "\<not> isScrolling scenario \<and> syncEnabled scenario \<and> listeners scenario 0 \<noteq> []
   \<and> writes (run [Scroll 0, Scroll 1, Scroll 0, Scroll 1] scenario) =
       [(1, ScrollTopProp, 300), (1, ScrollLeftProp, 0)]
   \<and> elements (run [Scroll 0, Scroll 1, Scroll 0, Scroll 1] scenario) 0 = paneA"
proof -
  have "targetScrollTop paneA paneB = 300 \<and> targetScrollLeft paneA paneB = 0"
    by code_simp
  then show ?thesis
    using guard_blocks_reciprocal [of scenario 0 1 "[1, 0, 1]"] by (simp add: scenario_def)
qed

text \<open>
  C4. The claim has every bind detach the listeners of the previous bind. Running
  \<open>init\<close> twice on the same two panes leaves two listeners on each pane: the listeners
  of the first run (function objects 2 and 3) are still registered next to those of
  the second (6 and 7).
\<close>

theorem init_twice_doubles_listeners:
  "listeners (snd (init (Some 0, Some 1) (snd (init (Some 0, Some 1) blank)))) 0
     = [(2, SyncLeftToRight), (6, SyncLeftToRight)]
   \<and> listeners (snd (init (Some 0, Some 1) (snd (init (Some 0, Some 1) blank)))) 1
     = [(3, SyncRightToLeft), (7, SyncRightToLeft)]"
  by (simp add: init_def blank_def scenario_def Let_def addScrollListeners_def
      removeScrollListeners_def newArrow_def addEventListener_def removeEventListener_def)

text \<open>
  C5, as claimed: a failed \<open>setPanes\<close> leaves the pane binding unchanged, with no
  partially updated pane references, and does not attempt the other side. On the bound
  scenario, a left locator that matches nothing and a right locator that matches a
  third element give \<open>false\<close>, yet the left reference is now null and the right
  reference is the third element.
\<close>

theorem setPanes_partial_update:
  "fst (setPanes ''#missing'' ''#other'' scenario) = Inr False
   \<and> leftPane scenario = Some 0 \<and> rightPane scenario = Some 1
   \<and> leftPane (snd (setPanes ''#missing'' ''#other'' scenario)) = None
   \<and> rightPane (snd (setPanes ''#missing'' ''#other'' scenario)) = Some 2"
  by (simp add: setPanes_def Let_def scenario_def page_def)

text \<open>
  C5, amended. Let both locators be valid selectors. \<open>setPanes\<close> looks both up and
  stores both results in the pane references before it checks either. If either lookup
  finds nothing, it returns \<open>false\<close> and logs one error: the left one if the left lookup
  failed, whatever the right lookup found, and the right one otherwise. Each reference
  then holds the result of its own lookup (null on a side that did not resolve), so a
  previous binding is not kept; \<open>addScrollListeners\<close> refuses to bind, and no sequence of
  scroll events and timeouts makes the engine assign an offset.
\<close>

theorem setPanes_failure:
  assumes left: "querySelector s l = Inr ml" and right: "querySelector s r = Inr mr"
    and failed: "ml = None \<or> mr = None"
  shows "fst (setPanes l r s) = Inr False
       \<and> leftPane (snd (setPanes l r s)) = ml
       \<and> rightPane (snd (setPanes l r s)) = mr
       \<and> console (snd (setPanes l r s)) =
           console s @ [if ml = None then LeftPaneNotFound l else RightPaneNotFound r]
       \<and> \<not> fst (addScrollListeners (snd (setPanes l r s)))
       \<and> writes (run evs (snd (setPanes l r s))) = writes s
       \<and> elements (run evs (snd (setPanes l r s))) = elements s"
proof -
  define t where "t = snd (setPanes l r s)"
  have res: "fst (setPanes l r s) = Inr False"
    using left right failed by (auto simp: setPanes_def Let_def)
  have panes: "leftPane t = ml" "rightPane t = mr"
    using left right by (simp_all add: t_def setPanes_def Let_def)
  have con: "console t = console s @ [if ml = None then LeftPaneNotFound l
                        else RightPaneNotFound r]"
    using left right failed by (auto simp: t_def setPanes_def Let_def)
  have same: "writes t = writes s" "elements t = elements s"
    using left right by (simp_all add: t_def setPanes_def Let_def)
  have null: "leftPane t = None \<or> rightPane t = None"
    using failed panes by simp
  have refuse: "\<not> fst (addScrollListeners t)"
    using null by (auto simp: addScrollListeners_def split: option.splits)
  from run_null [OF null, of evs] res panes con same refuse show ?thesis
    unfolding t_def by simp
qed

theorem setPanes_failure_witness:
  "fst (setPanes ''#missing'' ''#other'' scenario) = Inr False
   \<and> leftPane (snd (setPanes ''#missing'' ''#other'' scenario)) = None
   \<and> rightPane (snd (setPanes ''#missing'' ''#other'' scenario)) = Some 2
   \<and> console (snd (setPanes ''#missing'' ''#other'' scenario)) = [LeftPaneNotFound ''#missing'']
   \<and> writes (run [Scroll 0, Timeout, Scroll 1]
        (snd (setPanes ''#missing'' ''#other'' scenario))) = []
   \<and> fst (setPanes ''#left'' ''#missing'' scenario) = Inr False
   \<and> leftPane (snd (setPanes ''#left'' ''#missing'' scenario)) = Some 0
   \<and> rightPane (snd (setPanes ''#left'' ''#missing'' scenario)) = None
   \<and> console (snd (setPanes ''#left'' ''#missing'' scenario)) = [RightPaneNotFound ''#missing'']
   \<and> writes (run [Scroll 0, Timeout, Scroll 1]
        (snd (setPanes ''#left'' ''#missing'' scenario))) = []"
proof -
  have l: "querySelector scenario ''#missing'' = Inr None"
    "querySelector scenario ''#other'' = Inr (Some 2)"
    "querySelector scenario ''#left'' = Inr (Some 0)"
    by (simp_all add: scenario_def page_def)
  have w: "writes scenario = []" "console scenario = []"
    by (simp_all add: scenario_def)
  from setPanes_failure [OF l(1) l(2), of "[Scroll 0, Timeout, Scroll 1]"]
    setPanes_failure [OF l(3) l(1), of "[Scroll 0, Timeout, Scroll 1]"] w
  show ?thesis by simp
qed

text \<open>
  C7. While \<open>syncEnabled\<close> is false, a scroll event on any element runs its listeners and
  leaves the whole state as it was: no offset of any pane changes, nothing is assigned,
  the guard flag is not set and no timeout is scheduled.
\<close>

theorem disabled_scroll_changes_nothing:
  assumes "\<not> syncEnabled s"
  shows "scrollEvent a s = s"
  using assms by (simp add: scrollEvent_def foldl_runListener_guard)

theorem disabled_scroll_changes_nothing_witness:
  "\<not> syncEnabled (snd (toggleSync scenario)) \<and>
   scrollEvent 0 (snd (toggleSync scenario)) = snd (toggleSync scenario)"
  using disabled_scroll_changes_nothing [of "snd (toggleSync scenario)" 0]
  by (simp add: toggleSync_def Let_def scenario_def)

section \<open>Properties of the middle scroll control and of both components\<close>

subsection \<open>Auxiliary facts\<close>

text \<open>
  The displayed position starts at 0 and is only ever set by \<open>updateScrollPosition\<close>, so
  it stays within 0 and 100.
\<close>

lemma position_range: "0 \<le> position p \<and> position p \<le> 100"
  by (simp add: position_def)

lemma updateScrollPosition_range:
  assumes "0 \<le> scrollPosition c \<and> scrollPosition c \<le> 100"
  shows "0 \<le> scrollPosition (updateScrollPosition c)
       \<and> scrollPosition (updateScrollPosition c) \<le> 100"
  using assms position_range by (simp add: updateScrollPosition_def split: option.split)

lemma scrollToPosition_keeps_position:
  "scrollPosition (scrollToPosition q c) = scrollPosition c"
  by (simp add: scrollToPosition_def split: prod.split option.split)




subsection \<open>Claims\<close>






text \<open>
  C8, as claimed: setting a position updates the displayed position at once. On the
  mounted control showing 0, a click in the middle of the track asks the panes for 750
  and 300, half of their ranges, and the control still shows 0.
\<close>

theorem click_not_optimistic:
  "scrollPosition panel = 0
   \<and> map_option scrollToCalls (handleScrollBarClick 100 panel) = Some [(0, 750), (1, 300)]
   \<and> map_option scrollPosition (handleScrollBarClick 100 panel) = Some 0"
  by code_simp

text \<open>
  C8, amended. For a pointer at \<open>y\<close> on a track of non-zero height, with both containers
  found, \<open>handleScrollBarClick\<close> takes the position min(100, max(0, ((y - top) / height) *
  100)), which lies within 0 and 100, and through \<open>scrollToPosition\<close> asks each pane for
  Math.round(max(0, scrollHeight - clientHeight) * (position / 100)) from that pane's
  own sizes, every operation in double arithmetic in the order written. The displayed
  position is not changed by the call; it follows later through the scroll listener.
\<close>

theorem handleScrollBarClick_requests:
  assumes ref: "scrollBarRef c = Some rect" and height: "rectHeight rect \<noteq> 0"
    and left: "getElementById c (leftContainerId c) = Some l"
    and right: "getElementById c (rightContainerId c) = Some r"
  shows "let pos = min 100 (max 0
                     (js_mul (js_div (js_sub y (rectTop rect)) (rectHeight rect)) 100)) in
           0 \<le> pos \<and> pos \<le> 100 \<and>
           handleScrollBarClick y c =
             Some (c\<lparr>scrollToCalls := scrollToCalls c @
               [(l, Math_round
                      (js_mul (max 0 (js_sub (of_int (scrollHeight (containers c l)))
                                             (of_int (clientHeight (containers c l)))))
                              (js_div pos 100))),
                (r, Math_round
                      (js_mul (max 0 (js_sub (of_int (scrollHeight (containers c r)))
                                             (of_int (clientHeight (containers c r)))))
                              (js_div pos 100)))]\<rparr>)
           \<and> scrollPosition (scrollToPosition pos c) = scrollPosition c"
  using assms
  by (simp add: Let_def handleScrollBarClick_def trackPosition_def scrollToPosition_def
      getContainers_def containerScrollTop_def containerMaxScroll_def scrollRatio_def)

theorem handleScrollBarClick_requests_witness:
  "scrollBarRef panel = Some \<lparr>rectTop = 0, rectHeight = 200\<rparr>
   \<and> map_option scrollToCalls (handleScrollBarClick 29 panel) = Some [(0, 217), (1, 87)]
   \<and> map_option scrollToCalls (handleScrollBarClick 41 panel) = Some [(0, 308), (1, 123)]
   \<and> map_option scrollToCalls (handleScrollBarClick 250 panel) = Some [(0, 1500), (1, 600)]"
proof -
  have h: "scrollBarRef panel = Some \<lparr>rectTop = 0, rectHeight = 200\<rparr>"
    "rectHeight \<lparr>rectTop = 0, rectHeight = 200\<rparr> \<noteq> 0"
    "getElementById panel (leftContainerId panel) = Some 0"
    "getElementById panel (rightContainerId panel) = Some 1"
    by (simp_all add: panel_def ids_def)
  have "map_option scrollToCalls (handleScrollBarClick 29 panel) = Some [(0, 217), (1, 87)]
      \<and> map_option scrollToCalls (handleScrollBarClick 41 panel) = Some [(0, 308), (1, 123)]
      \<and> map_option scrollToCalls (handleScrollBarClick 250 panel) = Some [(0, 1500), (1, 600)]"
    by code_simp
  with handleScrollBarClick_requests [OF h, of 29] h(1) show ?thesis by simp
qed

text \<open>
  C9. With the displayed position within 0 and 100, the down control calls
  \<open>scrollToPosition\<close> with the position plus 10 and the up control with the position
  minus 10, in both cases clamped to the interval from 0 to 100; the reset control calls
  \<open>scrollToPosition 0\<close>.
\<close>

theorem step_controls:
  assumes "0 \<le> scrollPosition c" and "scrollPosition c \<le> 100"
  shows "scrollDown c = scrollToPosition (max 0 (min 100 (js_add (scrollPosition c) 10))) c
       \<and> scrollUp c = scrollToPosition (max 0 (min 100 (js_sub (scrollPosition c) 10))) c
       \<and> resetScroll c = scrollToPosition 0 c"
proof -
  have "scrollPosition c - 10 \<le> real_of_int 100" using assms by simp
  then have "js_sub (scrollPosition c) 10 \<le> real_of_int 100"
    unfolding js_sub_def by (rule nearestDouble_le_int) simp_all
  then have up: "max 0 (js_sub (scrollPosition c) 10)
      = max 0 (min 100 (js_sub (scrollPosition c) 10))"
    by simp
  have "0 \<le> js_add (scrollPosition c) 10"
    unfolding js_add_def using assms by (intro nearestDouble_nonneg) simp
  then have down: "min 100 (js_add (scrollPosition c) 10)
      = max 0 (min 100 (js_add (scrollPosition c) 10))"
    by simp
  show ?thesis
    unfolding scrollUp_def scrollDown_def resetScroll_def Let_def up [symmetric] down [symmetric]
    by simp
qed

theorem step_controls_witness:
  "scrollToCalls (scrollDown (panel\<lparr>scrollPosition := 95\<rparr>)) = [(0, 1500), (1, 600)]
   \<and> scrollToCalls (scrollUp (panel\<lparr>scrollPosition := 5\<rparr>)) = [(0, 0), (1, 0)]
   \<and> scrollToCalls (scrollDown (panel\<lparr>scrollPosition := 17 / 8\<rparr>)) = [(0, 182), (1, 73)]
   \<and> scrollToCalls (scrollDown (panel\<lparr>scrollPosition := 9 / 2\<rparr>)) = [(0, 217), (1, 87)]
   \<and> scrollToCalls (scrollUp (panel\<lparr>scrollPosition := 49 / 2\<rparr>)) = [(0, 217), (1, 87)]"
proof -
  have "scrollToCalls (scrollDown (panel\<lparr>scrollPosition := 95\<rparr>)) = [(0, 1500), (1, 600)]
      \<and> scrollToCalls (scrollUp (panel\<lparr>scrollPosition := 5\<rparr>)) = [(0, 0), (1, 0)]
      \<and> scrollToCalls (scrollDown (panel\<lparr>scrollPosition := 17 / 8\<rparr>)) = [(0, 182), (1, 73)]
      \<and> scrollToCalls (scrollDown (panel\<lparr>scrollPosition := 9 / 2\<rparr>)) = [(0, 217), (1, 87)]
      \<and> scrollToCalls (scrollUp (panel\<lparr>scrollPosition := 49 / 2\<rparr>)) = [(0, 217), (1, 87)]"
    by code_simp
  then show ?thesis
    using step_controls [of "panel\<lparr>scrollPosition := 95\<rparr>"]
      step_controls [of "panel\<lparr>scrollPosition := 5\<rparr>"]
      step_controls [of "panel\<lparr>scrollPosition := 17 / 8\<rparr>"]
    by simp
qed

text \<open>
  C10. If either container lookup finds no element, \<open>scrollToPosition\<close> returns the state
  it was given. In every case it either does that, or both lookups succeeded and it
  issues exactly two \<open>scrollTo\<close> calls, the first on the left container and the second
  on the right one. The call never changes the element store.
\<close>

theorem scrollToPosition_all_or_nothing:
  "(getElementById c (leftContainerId c) = None \<or> getElementById c (rightContainerId c) = None
      \<longrightarrow> scrollToPosition pos c = c)
   \<and> (scrollToPosition pos c = c \<or>
       (\<exists>l r u v. getElementById c (leftContainerId c) = Some l
          \<and> getElementById c (rightContainerId c) = Some r
          \<and> scrollToCalls (scrollToPosition pos c) = scrollToCalls c @ [(l, u), (r, v)]))
   \<and> containers (scrollToPosition pos c) = containers c"
  by (cases "getElementById c (leftContainerId c)"; cases "getElementById c (rightContainerId c)")
    (simp_all add: scrollToPosition_def getContainers_def)

theorem scrollToPosition_all_or_nothing_witness:
  "scrollToPosition 50 (panel\<lparr>rightContainerId := ''gone''\<rparr>) = panel\<lparr>rightContainerId := ''gone''\<rparr>
   \<and> scrollToPosition 50 (panel\<lparr>leftContainerId := ''gone''\<rparr>) = panel\<lparr>leftContainerId := ''gone''\<rparr>
   \<and> map fst (scrollToCalls (scrollToPosition 50 panel)) = [0, 1]"
  using scrollToPosition_all_or_nothing [of "panel\<lparr>rightContainerId := ''gone''\<rparr>" 50]
    scrollToPosition_all_or_nothing [of "panel\<lparr>leftContainerId := ''gone''\<rparr>" 50]
    scrollToPosition_all_or_nothing [of panel 50]
  by (simp add: panel_def ids_def scrollToPosition_def getContainers_def)

end
